theory Spec2Isabelle
  imports Complex_Main
begin

section \<open>Data model (src/ten.py lines 16-36, src/main.py lines 44-58)\<close>

text \<open>
  The repository holds two FastAPI services, \<^verbatim>\<open>src/main.py\<close> and \<^verbatim>\<open>src/ten.py\<close>.
  The handlers \<^verbatim>\<open>root\<close>, \<^verbatim>\<open>get_users\<close> and \<^verbatim>\<open>get_user\<close> have the same text in both
  files; \<^verbatim>\<open>ten.py\<close> adds \<^verbatim>\<open>create_user\<close>, \<^verbatim>\<open>update_user\<close>, \<^verbatim>\<open>delete_user\<close> and
  \<^verbatim>\<open>get_products\<close>.

  A Python \<^verbatim>\<open>str\<close> is a \<^typ>\<open>string\<close>, one \<^typ>\<open>char\<close> for each character of the
  text, so that \<^const>\<open>length\<close> is Python's \<^verbatim>\<open>len\<close>. A Python \<^verbatim>\<open>int\<close> is an
  \<^typ>\<open>int\<close>. \<^verbatim>\<open>Optional[str]\<close> is \<^typ>\<open>string option\<close>, with \<^verbatim>\<open>None\<close> as
  \<^const>\<open>None\<close>. \<^verbatim>\<open>datetime.now()\<close> reads the clock: every handler that calls it takes
  the value read as its first argument \<open>now\<close>.
\<close>

type_synonym datetime = int

text \<open>\<^verbatim>\<open>class UserBase(BaseModel)\<close>: \<^verbatim>\<open>email: str\<close> is required, \<^verbatim>\<open>full_name\<close> defaults to None.\<close>

record UserBase =
  email :: string
  full_name :: "string option"

text \<open>\<^verbatim>\<open>class UserCreate(UserBase)\<close>: adds the required \<^verbatim>\<open>password\<close> (\<^verbatim>\<open>min_length=8\<close>).\<close>

record UserCreate = UserBase +
  password :: string

text \<open>\<^verbatim>\<open>class UserResponse(UserBase)\<close>: the field \<^verbatim>\<open>id\<close> is named \<open>id_UserResponse\<close> here.\<close>

record UserResponse = UserBase +
  id_UserResponse :: int
  is_active :: bool
  created_at :: datetime

text \<open>
  \<^verbatim>\<open>class Product(BaseModel)\<close>: the field \<^verbatim>\<open>id\<close> is named \<open>id_Product\<close> here. The
  \<^verbatim>\<open>price\<close> is a Python float; the model keeps the decimal literal written in the source
  and never computes with it.
\<close>

record Product =
  id_Product :: int
  name :: string
  price :: real
  category :: "string option"

text \<open>The values stored in the dictionaries that \<^verbatim>\<open>root\<close> and \<^verbatim>\<open>delete_user\<close> return.\<close>

datatype json_value = JString string | JDatetime datetime

text \<open>
  The ways a request fails. \<open>HTTPException status_code detail\<close> is the exception
  raised by a handler. \<open>RequestValidationError fields\<close> is the failure of a declared
  constraint (\<^verbatim>\<open>Path(..., gt=0)\<close>, a required field \<^verbatim>\<open>Field(...)\<close>,
  \<^verbatim>\<open>min_length=8\<close>), with the names of the offending fields; the framework raises it
  while it builds the handler's arguments, before the handler is called. \<open>ValueError\<close>
  is the exception of the Python runtime that a handler raises and does not catch when
  it converts an int of too many digits to a string.
\<close>

datatype error = HTTPException int string | RequestValidationError "string list" | ValueError

section \<open>Python built-ins used by the handlers\<close>

text \<open>The decimal digit \<open>d\<close> (for \<open>d < 10\<close>) as a character: \<open>0\<close> is code 48.\<close>

definition digit_char :: "nat \<Rightarrow> char" where
  "digit_char d = char_of (48 + d)"

text \<open>\<^verbatim>\<open>str(n)\<close> for \<open>n \<ge> 0\<close>: the decimal digits, most significant first, no leading zero.\<close>

function str_nat :: "nat \<Rightarrow> string" where
  "str_nat n = (if n < 10 then [digit_char n] else str_nat (n div 10) @ [digit_char (n mod 10)])"
  by pat_completeness auto
termination
  by (relation "measure (\<lambda>n. n)") auto

declare str_nat.simps [simp del]

text \<open>
  The decimal text of an int: a minus sign for a negative number, then the digits of its
  absolute value.
\<close>

definition decimal :: "int \<Rightarrow> string" where
  "decimal i = (if i < 0 then CHR ''-'' # str_nat (nat (- i)) else str_nat (nat i))"

text \<open>
  \<^verbatim>\<open>sys.get_int_max_str_digits()\<close>: the largest number of digits that CPython 3.11
  converts between int and str. 4300 is the default, and the source does not change it.
\<close>

definition int_max_str_digits :: nat where
  "int_max_str_digits = 4300"

text \<open>
  The f-string field \<^verbatim>\<open>{user_id}\<close> of an int is \<^verbatim>\<open>str(user_id)\<close>. The conversion
  raises \<^verbatim>\<open>ValueError\<close> when the number has more digits (the sign not counted) than
  the limit; otherwise it gives the decimal text.
\<close>

definition str_int :: "int \<Rightarrow> error + string" where
  "str_int i =
     (if int_max_str_digits < length (str_nat (nat \<bar>i\<bar>)) then Inl ValueError
      else Inr (decimal i))"

text \<open>Reading a decimal numeral back; used to state that \<open>decimal\<close> loses nothing.\<close>

definition digit_val :: "char \<Rightarrow> nat" where
  "digit_val c = of_char c - 48"

definition nat_of_digits :: "string \<Rightarrow> nat" where
  "nat_of_digits s = foldl (\<lambda>a c. 10 * a + digit_val c) 0 s"

fun int_of_str :: "string \<Rightarrow> int" where
  "int_of_str [] = 0"
| "int_of_str (c # cs) =
     (if c = CHR ''-'' then - int (nat_of_digits cs) else int (nat_of_digits (c # cs)))"

text \<open>
  Python truthiness of an \<^verbatim>\<open>Optional[str]\<close>, as tested by \<^verbatim>\<open>if category:\<close>:
  \<^verbatim>\<open>None\<close> and the empty string are false, every other string is true.
\<close>

fun truthy :: "string option \<Rightarrow> bool" where
  "truthy None = False"
| "truthy (Some s) = (s \<noteq> [])"

section \<open>Handlers\<close>

text \<open>\<^verbatim>\<open>root\<close> (ten.py lines 39-42, main.py lines 61-64).\<close>

definition root :: "datetime \<Rightarrow> (string \<rightharpoonup> json_value)" where
  "root now = [''status'' \<mapsto> JString ''healthy'', ''timestamp'' \<mapsto> JDatetime now]"

text \<open>\<^verbatim>\<open>get_users\<close> (ten.py lines 45-65, main.py lines 67-87).\<close>

definition get_users :: "datetime \<Rightarrow> int \<Rightarrow> int \<Rightarrow> UserResponse list" where
  "get_users now skip limit =
     (let mock_users =
        [\<lparr>email = ''john@example.com'', full_name = Some ''John Doe'',
          id_UserResponse = 1, is_active = True, created_at = now\<rparr>]
      in mock_users)"

text \<open>\<^verbatim>\<open>get_user\<close> (ten.py lines 67-85, main.py lines 89-107), the body of the handler.\<close>

definition get_user :: "datetime \<Rightarrow> int \<Rightarrow> error + UserResponse" where
  "get_user now user_id =
     (if user_id \<noteq> 1 then Inl (HTTPException 404 ''User not found'')
      else Inr \<lparr>email = ''john@example.com'', full_name = Some ''John Doe'',
                id_UserResponse = user_id, is_active = True, created_at = now\<rparr>)"

text \<open>\<^verbatim>\<open>create_user\<close> (ten.py lines 87-100).\<close>

definition create_user :: "datetime \<Rightarrow> UserCreate \<Rightarrow> UserResponse" where
  "create_user now user =
     \<lparr>email = email user, full_name = full_name user,
      id_UserResponse = 2, is_active = True, created_at = now\<rparr>"

text \<open>\<^verbatim>\<open>update_user\<close> (ten.py lines 102-119).\<close>

definition update_user :: "datetime \<Rightarrow> int \<Rightarrow> UserBase \<Rightarrow> UserResponse" where
  "update_user now user_id user =
     \<lparr>email = email user, full_name = full_name user,
      id_UserResponse = user_id, is_active = True, created_at = now\<rparr>"

text \<open>
  \<^verbatim>\<open>delete_user\<close> (ten.py lines 121-128). Evaluating the f-string converts \<^verbatim>\<open>user_id\<close>
  to text; when that conversion raises, the handler raises and builds no dictionary.
\<close>

definition delete_user :: "int \<Rightarrow> error + (string \<rightharpoonup> json_value)" where
  "delete_user user_id =
     (case str_int user_id of
        Inl e \<Rightarrow> Inl e
      | Inr s \<Rightarrow> Inr [''message'' \<mapsto> JString (''User '' @ s @ '' deleted successfully'')])"

text \<open>\<^verbatim>\<open>get_products\<close> (ten.py lines 131-144).\<close>

definition get_products :: "string option \<Rightarrow> Product list" where
  "get_products category_q =
     (let products =
        [\<lparr>id_Product = 1, name = ''Laptop'', price = 999.99, category = Some ''Electronics''\<rparr>,
         \<lparr>id_Product = 2, name = ''Book'', price = 19.99, category = Some ''Books''\<rparr>]
      in if truthy category_q then filter (\<lambda>p. category p = category_q) products
         else products)"

section \<open>Routes: declared constraints, then the handler\<close>

text \<open>
  A route is the handler together with what its decorator and signature declare: the
  constraints on the parameters and the status code of a successful response
  (\<^verbatim>\<open>status_code=201\<close> for \<^verbatim>\<open>create_user\<close>, the framework's default 200 otherwise). The
  result is \<open>Inl\<close> of the error, or \<open>Inr (status, body)\<close>.

  A JSON request body is a map from field names to string values; a field that is absent
  (or null) is \<^const>\<open>None\<close>.
\<close>

type_synonym json_body = "string \<rightharpoonup> string"

text \<open>\<^verbatim>\<open>user_id: int = Path(..., gt=0)\<close> (ten.py line 69, main.py line 91).\<close>

definition Path_gt0 :: "string \<Rightarrow> int \<Rightarrow> error + int" where
  "Path_gt0 field v = (if v > 0 then Inr v else Inl (RequestValidationError [field]))"

text \<open>The failures of a required string field with a minimum length.\<close>

fun Field_errors :: "string \<Rightarrow> nat \<Rightarrow> string option \<Rightarrow> string list" where
  "Field_errors field min_length None = [field]"
| "Field_errors field min_length (Some v) = (if length v < min_length then [field] else [])"

text \<open>
  Building a \<^verbatim>\<open>UserBase\<close> from a body: \<^verbatim>\<open>email\<close> is required (\<^verbatim>\<open>Field(...)\<close>),
  \<^verbatim>\<open>full_name\<close> is optional.
\<close>

definition parse_UserBase :: "json_body \<Rightarrow> error + UserBase" where
  "parse_UserBase body =
     (case body ''email'' of
        None \<Rightarrow> Inl (RequestValidationError [''email''])
      | Some e \<Rightarrow> Inr \<lparr>email = e, full_name = body ''full_name''\<rparr>)"

text \<open>
  Building a \<^verbatim>\<open>UserCreate\<close> from a body: \<^verbatim>\<open>email\<close> and \<^verbatim>\<open>password\<close> are required,
  \<^verbatim>\<open>password\<close> has \<^verbatim>\<open>min_length=8\<close>; every failing field is reported.
\<close>

definition parse_UserCreate :: "json_body \<Rightarrow> error + UserCreate" where
  "parse_UserCreate body =
     (let errors = Field_errors ''email'' 0 (body ''email'')
                 @ Field_errors ''password'' 8 (body ''password'')
      in case (errors, body ''email'', body ''password'') of
           ([], Some e, Some p) \<Rightarrow> Inr \<lparr>email = e, full_name = body ''full_name'', password = p\<rparr>
         | _ \<Rightarrow> Inl (RequestValidationError errors))"

text \<open>\<^verbatim>\<open>@app.get("/")\<close>.\<close>

definition GET_root :: "datetime \<Rightarrow> error + int \<times> (string \<rightharpoonup> json_value)" where
  "GET_root now = Inr (200, root now)"

text \<open>
  \<^verbatim>\<open>@app.get("/users")\<close>: \<^verbatim>\<open>skip: int = Query(0)\<close>, \<^verbatim>\<open>limit: int = Query(10)\<close>; an
  absent query parameter takes its default.
\<close>

definition GET_users :: "datetime \<Rightarrow> int option \<Rightarrow> int option \<Rightarrow> error + int \<times> UserResponse list" where
  "GET_users now skip_q limit_q =
     Inr (200, get_users now (case skip_q of None \<Rightarrow> 0 | Some s \<Rightarrow> s)
                             (case limit_q of None \<Rightarrow> 10 | Some l \<Rightarrow> l))"

text \<open>\<^verbatim>\<open>@app.get("/users/{user_id}")\<close>: the path parameter is checked, then the handler runs.\<close>

definition GET_users_id :: "datetime \<Rightarrow> int \<Rightarrow> error + int \<times> UserResponse" where
  "GET_users_id now user_id =
     (case Path_gt0 ''user_id'' user_id of
        Inl e \<Rightarrow> Inl e
      | Inr v \<Rightarrow> (case get_user now v of Inl e \<Rightarrow> Inl e | Inr r \<Rightarrow> Inr (200, r)))"

text \<open>\<^verbatim>\<open>@app.post("/users", status_code=201)\<close>: the body is validated, then the handler runs.\<close>

definition POST_users :: "datetime \<Rightarrow> json_body \<Rightarrow> error + int \<times> UserResponse" where
  "POST_users now body =
     (case parse_UserCreate body of
        Inl e \<Rightarrow> Inl e
      | Inr user \<Rightarrow> Inr (201, create_user now user))"

text \<open>\<^verbatim>\<open>@app.put("/users/{user_id}")\<close>: \<^verbatim>\<open>user_id: int\<close> carries no constraint.\<close>

definition PUT_users_id :: "datetime \<Rightarrow> int \<Rightarrow> json_body \<Rightarrow> error + int \<times> UserResponse" where
  "PUT_users_id now user_id body =
     (case parse_UserBase body of
        Inl e \<Rightarrow> Inl e
      | Inr user \<Rightarrow> Inr (200, update_user now user_id user))"

text \<open>
  \<^verbatim>\<open>@app.delete("/users/{user_id}")\<close>: \<^verbatim>\<open>user_id: int\<close> carries no constraint. The
  route starts from the path parameter already read as an int. An exception of the
  handler is the failure of the request; otherwise the status is 200.
\<close>

definition DELETE_users_id :: "int \<Rightarrow> error + int \<times> (string \<rightharpoonup> json_value)" where
  "DELETE_users_id user_id =
     (case delete_user user_id of
        Inl e \<Rightarrow> Inl e
      | Inr body \<Rightarrow> Inr (200, body))"

text \<open>\<^verbatim>\<open>@app.get("/products")\<close>: \<^verbatim>\<open>category: Optional[str] = Query(None)\<close>.\<close>

definition GET_products :: "string option \<Rightarrow> error + int \<times> Product list" where
  "GET_products category_q = Inr (200, get_products category_q)"

section \<open>The products contract in the words of the specification\<close>

text \<open>The static two-item catalog: Laptop (Electronics), then Book (Books).\<close>

definition catalog :: "Product list" where
  "catalog =
     [\<lparr>id_Product = 1, name = ''Laptop'', price = 999.99, category = Some ''Electronics''\<rparr>,
      \<lparr>id_Product = 2, name = ''Book'', price = 19.99, category = Some ''Books''\<rparr>]"

text \<open>
  The specification of \<^verbatim>\<open>GET /products\<close>, word for word: without a category parameter
  the whole catalog; with a category parameter the catalog items whose category equals
  the parameter. It is compared with \<^const>\<open>get_products\<close> below.
\<close>

fun spec_get_products :: "string option \<Rightarrow> Product list" where
  "spec_get_products None = catalog"
| "spec_get_products (Some c) = filter (\<lambda>p. category p = Some c) catalog"

section \<open>Facts about the built-ins\<close>

lemma of_char_digit_char: "d < 10 \<Longrightarrow> of_char (digit_char d) = (48 + d :: nat)"
  by (simp add: digit_char_def)

lemma digit_val_digit_char: "d < 10 \<Longrightarrow> digit_val (digit_char d) = d"
  by (simp add: digit_val_def of_char_digit_char)

lemma digit_char_not_minus: "d < 10 \<Longrightarrow> digit_char d \<noteq> CHR ''-''"
proof
  assume d: "d < 10" and eq: "digit_char d = CHR ''-''"
  have "(of_char (digit_char d) :: nat) = of_char (CHR ''-'')" using eq by simp
  with d show False by (simp add: of_char_digit_char)
qed

lemma nat_of_digits_snoc: "nat_of_digits (s @ [c]) = 10 * nat_of_digits s + digit_val c"
  by (simp add: nat_of_digits_def)

text \<open>Reading the digits of \<open>n\<close> gives \<open>n\<close> back: by induction along the recursion of \<open>str_nat\<close>.\<close>

lemma nat_of_digits_str_nat: "nat_of_digits (str_nat n) = n"
proof (induction n rule: str_nat.induct)
  case (1 n)
  show ?case
  proof (cases "n < 10")
    case True
    then show ?thesis
      by (subst str_nat.simps) (simp add: nat_of_digits_def digit_val_digit_char)
  next
    case False
    then have "nat_of_digits (str_nat n) =
        10 * nat_of_digits (str_nat (n div 10)) + digit_val (digit_char (n mod 10))"
      by (subst str_nat.simps) (simp add: nat_of_digits_snoc)
    also have "\<dots> = 10 * (n div 10) + n mod 10"
      using 1 False by (simp add: digit_val_digit_char)
    finally show ?thesis by simp
  qed
qed

text \<open>The text of a natural number starts with a digit, so never with a minus sign.\<close>

lemma str_nat_head: "\<exists>d cs. d < 10 \<and> str_nat n = digit_char d # cs"
proof (induction n rule: str_nat.induct)
  case (1 n)
  show ?case
  proof (cases "n < 10")
    case True
    then show ?thesis by (subst str_nat.simps) auto
  next
    case False
    with 1 obtain d cs where "d < 10" "str_nat (n div 10) = digit_char d # cs" by blast
    with False show ?thesis by (subst str_nat.simps) auto
  qed
qed

lemma int_of_str_decimal: "int_of_str (decimal i) = i"
proof (cases "i < 0")
  case True
  then show ?thesis by (simp add: decimal_def nat_of_digits_str_nat)
next
  case False
  obtain d cs where d: "d < 10" and s: "str_nat (nat i) = digit_char d # cs"
    using str_nat_head by blast
  have "int_of_str (str_nat (nat i)) = int (nat_of_digits (str_nat (nat i)))"
    unfolding s using digit_char_not_minus [OF d] by simp
  with False show ?thesis by (simp add: decimal_def nat_of_digits_str_nat)
qed

lemma decimal_inj:
  assumes "decimal i = decimal j"
  shows "i = j"
proof -
  have "i = int_of_str (decimal i)" by (rule int_of_str_decimal [symmetric])
  also have "\<dots> = int_of_str (decimal j)" by (rule arg_cong [OF assms])
  also have "\<dots> = j" by (rule int_of_str_decimal)
  finally show ?thesis .
qed

lemma decimal_5: "decimal 5 = ''5''"
  by code_simp

lemma decimal_minus_42: "decimal (- 42) = ''-42''"
  by code_simp

text \<open>How many digits a number has: at most \<open>k\<close> exactly when it is below \<open>10 ^ k\<close>.\<close>

lemma length_str_nat:
  "length (str_nat n) = (if n < 10 then 1 else Suc (length (str_nat (n div 10))))"
  by (subst str_nat.simps) simp

lemma length_str_nat_le: "0 < k \<Longrightarrow> n < 10 ^ k \<Longrightarrow> length (str_nat n) \<le> k"
proof (induction n arbitrary: k rule: str_nat.induct)
  case (1 n)
  show ?case
  proof (cases "n < 10")
    case True
    with 1(2) show ?thesis by (simp add: length_str_nat)
  next
    case False
    obtain k' where k: "k = Suc k'" using 1(2) by (cases k) auto
    have "k' \<noteq> 0" using False 1(3) k by (cases k') auto
    moreover have "n div 10 < 10 ^ k'"
      using 1(3) k by (simp add: less_mult_imp_div_less mult.commute)
    ultimately have "length (str_nat (n div 10)) \<le> k'" using 1(1) [OF False, of k'] by simp
    with False k show ?thesis by (simp add: length_str_nat)
  qed
qed

lemma length_str_nat_gt: "10 ^ k \<le> n \<Longrightarrow> k < length (str_nat n)"
proof (induction n arbitrary: k rule: str_nat.induct)
  case (1 n)
  show ?case
  proof (cases k)
    case 0
    then show ?thesis by (simp add: length_str_nat)
  next
    case (Suc k')
    have ge: "\<not> n < 10"
    proof
      assume small: "n < 10"
      have "(10::nat) * 1 \<le> 10 * 10 ^ k'" by (rule mult_le_mono2) simp
      moreover have "10 * 10 ^ k' \<le> n" using 1(2) Suc by simp
      ultimately show False using small by linarith
    qed
    have "10 ^ k' \<le> n div 10"
      using 1(2) Suc by (simp add: less_eq_div_iff_mult_less_eq mult.commute)
    then have "k' < length (str_nat (n div 10))" using 1(1) [OF ge] by simp
    with ge Suc show ?thesis by (simp add: length_str_nat)
  qed
qed

text \<open>The conversion succeeds below \<open>10 ^ 4300\<close> in absolute value and raises from there on.\<close>

lemma str_int_in_range:
  assumes "\<bar>i\<bar> < 10 ^ int_max_str_digits"
  shows "str_int i = Inr (decimal i)"
proof -
  have "int (nat \<bar>i\<bar>) < int (10 ^ int_max_str_digits)" using assms by simp
  then have "nat \<bar>i\<bar> < 10 ^ int_max_str_digits" by (simp only: of_nat_less_iff)
  moreover have "0 < int_max_str_digits" by (simp add: int_max_str_digits_def)
  ultimately have "length (str_nat (nat \<bar>i\<bar>)) \<le> int_max_str_digits"
    by (rule length_str_nat_le [rotated])
  then show ?thesis by (simp add: str_int_def)
qed

lemma str_int_out_of_range:
  assumes "10 ^ int_max_str_digits \<le> \<bar>i\<bar>"
  shows "str_int i = Inl ValueError"
proof -
  have "int (10 ^ int_max_str_digits) \<le> int (nat \<bar>i\<bar>)" using assms by simp
  then have "10 ^ int_max_str_digits \<le> nat \<bar>i\<bar>" by (simp only: of_nat_le_iff)
  then have "int_max_str_digits < length (str_nat (nat \<bar>i\<bar>))" by (rule length_str_nat_gt)
  then show ?thesis by (simp add: str_int_def)
qed

lemma str_int_huge: "str_int (10 ^ 4300) = Inl ValueError"
proof (rule str_int_out_of_range)
  show "10 ^ int_max_str_digits \<le> \<bar>(10::int) ^ 4300\<bar>"
    unfolding int_max_str_digits_def by (rule abs_ge_self)
qed

lemma two_digits_in_range:
  assumes "\<bar>i\<bar> < 100"
  shows "\<bar>i :: int\<bar> < 10 ^ 4300"
proof -
  have "\<bar>i\<bar> < 10 ^ 2" using assms by simp
  also have "(10::int) ^ 2 \<le> 10 ^ 4300" by (rule power_increasing) simp_all
  finally show ?thesis .
qed

lemma delete_user_in_range:
  assumes "\<bar>user_id\<bar> < 10 ^ 4300"
  shows "delete_user user_id =
    Inr [''message'' \<mapsto> JString (''User '' @ decimal user_id @ '' deleted successfully'')]"
proof -
  have "\<bar>user_id\<bar> < 10 ^ int_max_str_digits"
    unfolding int_max_str_digits_def by (rule assms)
  then have "str_int user_id = Inr (decimal user_id)" by (rule str_int_in_range)
  then show ?thesis by (simp add: delete_user_def)
qed

section \<open>The claims\<close>

text \<open>
  C1. For every integer \<open>user_id > 0\<close>, \<^verbatim>\<open>GET /users/{user_id}\<close> fails with status 404
  and detail "User not found" if and only if \<open>user_id \<noteq> 1\<close>; for \<open>user_id = 1\<close> it returns
  status 200 with the fixed record id 1, email john@example.com, full name John Doe,
  active. (\<^verbatim>\<open>get_user\<close> has the same text in ten.py and main.py.)
\<close>

theorem get_user_found_iff:
  assumes "0 < user_id"
  shows "(GET_users_id now user_id = Inl (HTTPException 404 ''User not found'') \<longleftrightarrow> user_id \<noteq> 1)
       \<and> (user_id = 1 \<longrightarrow> GET_users_id now user_id =
            Inr (200, \<lparr>email = ''john@example.com'', full_name = Some ''John Doe'',
                       id_UserResponse = 1, is_active = True, created_at = now\<rparr>))"
  using assms by (simp add: GET_users_id_def Path_gt0_def get_user_def)

theorem get_user_found_iff_witness:
  "(0::int) < 1 \<and> (0::int) < 2
   \<and> GET_users_id 0 1 = Inr (200, \<lparr>email = ''john@example.com'', full_name = Some ''John Doe'',
                       id_UserResponse = 1, is_active = True, created_at = 0\<rparr>)
   \<and> GET_users_id 0 2 = Inl (HTTPException 404 ''User not found'')"
  using get_user_found_iff [of 1 0] get_user_found_iff [of 2 0] by simp

text \<open>
  C2. For every pair of integer query parameters \<open>skip\<close> and \<open>limit\<close> (given or left to
  their defaults), \<^verbatim>\<open>GET /users\<close> returns status 200 with the same one-element list, whose
  element has id 1, email john@example.com and is active; \<open>skip\<close> and \<open>limit\<close> have no
  effect on the result.
\<close>

theorem get_users_ignores_paging:
  "GET_users now skip_q limit_q =
     Inr (200, [\<lparr>email = ''john@example.com'', full_name = Some ''John Doe'',
                 id_UserResponse = 1, is_active = True, created_at = now\<rparr>])
   \<and> get_users now skip limit =
     [\<lparr>email = ''john@example.com'', full_name = Some ''John Doe'',
       id_UserResponse = 1, is_active = True, created_at = now\<rparr>]
   \<and> GET_users now skip_q limit_q = GET_users now skip_q' limit_q'"
  by (simp add: GET_users_def get_users_def)

text \<open>
  C3. For every integer \<open>user_id \<le> 0\<close>, \<^verbatim>\<open>GET /users/{user_id}\<close> is a request-validation
  failure on \<^verbatim>\<open>user_id\<close> and not a 404: the constraint \<^verbatim>\<open>gt=0\<close> is checked before the
  handler body, whose not-found branch (which such an id would take) is never reached.
\<close>

theorem get_user_nonpositive_is_validation_failure:
  assumes "user_id \<le> 0"
  shows "GET_users_id now user_id = Inl (RequestValidationError [''user_id''])
       \<and> GET_users_id now user_id \<noteq> Inl (HTTPException 404 ''User not found'')
       \<and> get_user now user_id = Inl (HTTPException 404 ''User not found'')"
  using assms by (simp add: GET_users_id_def Path_gt0_def get_user_def)

theorem get_user_nonpositive_is_validation_failure_witness:
  "(0::int) \<le> 0 \<and> GET_users_id 0 0 = Inl (RequestValidationError [''user_id''])
   \<and> GET_users_id 0 0 \<noteq> Inl (HTTPException 404 ''User not found'')"
  using get_user_nonpositive_is_validation_failure [of 0 0] by simp

text \<open>
  C4. For every body with an email and a password of length at least 8,
  \<^verbatim>\<open>POST /users\<close> returns status 201 with a \<^verbatim>\<open>UserResponse\<close> of id 2, the email and full
  name of the request, active. For every body whose password is shorter than 8, or that
  lacks the email or the password, the request is a validation failure naming at least
  one field, and the handler does not run.
\<close>

theorem create_user_contract:
  "(body ''email'' = Some e \<and> body ''password'' = Some p \<and> 8 \<le> length p \<longrightarrow>
      POST_users now body =
        Inr (201, \<lparr>email = e, full_name = body ''full_name'',
                   id_UserResponse = 2, is_active = True, created_at = now\<rparr>))
   \<and> (body ''email'' = None \<or> body ''password'' = None
        \<or> (\<exists>p. body ''password'' = Some p \<and> length p < 8) \<longrightarrow>
      (\<exists>fields. fields \<noteq> [] \<and> POST_users now body = Inl (RequestValidationError fields)))"
  by (cases "body ''email''"; cases "body ''password''")
     (auto simp add: POST_users_def parse_UserCreate_def create_user_def)

theorem create_user_contract_witness:
  "POST_users 0 [''email'' \<mapsto> ''a@b.com'', ''password'' \<mapsto> ''password1''] =
     Inr (201, \<lparr>email = ''a@b.com'', full_name = None,
                id_UserResponse = 2, is_active = True, created_at = 0\<rparr>)
   \<and> (\<exists>fields. fields \<noteq> [] \<and>
        POST_users 0 [''email'' \<mapsto> ''a@b.com'', ''password'' \<mapsto> ''short''] =
          Inl (RequestValidationError fields))"
  using create_user_contract
          [of "[''email'' \<mapsto> ''a@b.com'', ''password'' \<mapsto> ''password1'']"
              "''a@b.com''" "''password1''" 0]
        create_user_contract
          [of "[''email'' \<mapsto> ''a@b.com'', ''password'' \<mapsto> ''short'']"
              "''a@b.com''" "''short''" 0]
  by simp

text \<open>
  C5. For every integer \<open>user_id\<close> and every \<^verbatim>\<open>UserBase\<close> body,
  \<^verbatim>\<open>PUT /users/{user_id}\<close> returns status 200 with a \<^verbatim>\<open>UserResponse\<close> whose id is the
  path's \<open>user_id\<close>, whose email and full name are the body's, and which is active. There
  is no existence check: this holds for every id.
\<close>

theorem update_user_echoes:
  "update_user now user_id user =
     \<lparr>email = email user, full_name = full_name user,
      id_UserResponse = user_id, is_active = True, created_at = now\<rparr>
   \<and> (body ''email'' = Some e \<longrightarrow>
        PUT_users_id now user_id body =
          Inr (200, \<lparr>email = e, full_name = body ''full_name'',
                     id_UserResponse = user_id, is_active = True, created_at = now\<rparr>))"
  by (simp add: PUT_users_id_def parse_UserBase_def update_user_def)

theorem update_user_echoes_witness:
  "PUT_users_id 0 5 [''email'' \<mapsto> ''x@y.com''] =
     Inr (200, \<lparr>email = ''x@y.com'', full_name = None,
                id_UserResponse = 5, is_active = True, created_at = 0\<rparr>)
   \<and> PUT_users_id 0 (- 3) [''email'' \<mapsto> ''x@y.com''] =
     Inr (200, \<lparr>email = ''x@y.com'', full_name = None,
                id_UserResponse = - 3, is_active = True, created_at = 0\<rparr>)"
  using update_user_echoes [of 0 5 _ "[''email'' \<mapsto> ''x@y.com'']" "''x@y.com''"]
        update_user_echoes [of 0 "- 3" _ "[''email'' \<mapsto> ''x@y.com'']" "''x@y.com''"]
  by simp

text \<open>
  C6, as stated: for every integer \<open>user_id\<close>, \<^verbatim>\<open>DELETE /users/{user_id}\<close> returns
  status 200 with the message "User \<open>user_id\<close> deleted successfully". It fails at
  \<open>user_id = 10 ^ 4300\<close>, a number of 4301 digits: the f-string cannot convert it, the
  handler raises \<^verbatim>\<open>ValueError\<close>, and the request is not answered with 200.
\<close>

theorem delete_user_huge_id_counterexample:
  "delete_user (10 ^ 4300) = Inl ValueError
   \<and> DELETE_users_id (10 ^ 4300) \<noteq>
       Inr (200, [''message'' \<mapsto>
                    JString (''User '' @ decimal (10 ^ 4300) @ '' deleted successfully'')])"
proof -
  have h: "delete_user (10 ^ 4300) = Inl ValueError"
    by (simp only: delete_user_def str_int_huge sum.case)
  have r: "DELETE_users_id (10 ^ 4300) = Inl ValueError"
    by (simp only: DELETE_users_id_def h sum.case)
  show ?thesis
    unfolding r by (intro conjI h Inl_not_Inr)
qed

text \<open>
  C6, amended: for every integer \<open>user_id\<close> of at most 4300 decimal digits, that is
  with \<open>\<bar>user_id\<bar> < 10 ^ 4300\<close>, \<^verbatim>\<open>DELETE /users/{user_id}\<close> returns status 200 with the
  body whose only key \<^verbatim>\<open>message\<close> holds "User \<open>user_id\<close> deleted successfully", the id
  written in decimal (reading the number back gives \<open>user_id\<close>). No existence check is
  made: the result is the same function of the id for every such id, and the handler
  reads and writes no state.
\<close>

theorem delete_user_message_in_range:
  assumes "\<bar>user_id\<bar> < 10 ^ 4300"
  shows "DELETE_users_id user_id =
      Inr (200, [''message'' \<mapsto>
                   JString (''User '' @ decimal user_id @ '' deleted successfully'')])
    \<and> int_of_str (decimal user_id) = user_id"
  using delete_user_in_range [OF assms]
  by (simp add: DELETE_users_id_def int_of_str_decimal)

theorem delete_user_message_in_range_witness:
  "\<bar>5 :: int\<bar> < 10 ^ 4300 \<and> \<bar>- 42 :: int\<bar> < 10 ^ 4300
   \<and> DELETE_users_id 5 =
       Inr (200, [''message'' \<mapsto> JString ''User 5 deleted successfully''])
   \<and> DELETE_users_id (- 42) =
       Inr (200, [''message'' \<mapsto> JString ''User -42 deleted successfully''])"
proof -
  have a: "\<bar>5 :: int\<bar> < 10 ^ 4300" by (rule two_digits_in_range) simp
  have b: "\<bar>- 42 :: int\<bar> < 10 ^ 4300" by (rule two_digits_in_range) simp
  have c: "DELETE_users_id 5 =
      Inr (200, [''message'' \<mapsto> JString ''User 5 deleted successfully''])"
    using delete_user_message_in_range [OF a] by (simp add: decimal_5)
  have d: "DELETE_users_id (- 42) =
      Inr (200, [''message'' \<mapsto> JString ''User -42 deleted successfully''])"
    using delete_user_message_in_range [OF b] by (simp add: decimal_minus_42)
  show ?thesis by (intro conjI a b c d)
qed

text \<open>
  C7, as stated: without a category parameter \<^verbatim>\<open>GET /products\<close> returns the two-item
  catalog, and with a category parameter exactly the items whose category equals it. The
  second half fails for the empty string, which is a parameter that was provided: no item
  has the empty category, and the code returns both items.
\<close>

theorem get_products_empty_category_counterexample:
  "get_products (Some []) \<noteq> spec_get_products (Some [])
   \<and> spec_get_products (Some []) = []
   \<and> length (get_products (Some [])) = 2"
  by (simp add: get_products_def catalog_def)

text \<open>
  C7, amended: without a category parameter \<^verbatim>\<open>GET /products\<close> returns status 200 with
  the two-item catalog, Laptop (Electronics) then Book (Books); with a non-empty category
  parameter it returns the catalog items whose category equals the parameter, compared
  exactly and with case: "Books" gives the Book item alone, "Unknown" and "books" give
  the empty list.
\<close>

theorem get_products_filter:
  "get_products None = catalog
   \<and> (c \<noteq> [] \<longrightarrow> get_products (Some c) = spec_get_products (Some c))
   \<and> (c \<noteq> [] \<longrightarrow> get_products (Some c) = filter (\<lambda>p. category p = Some c) catalog)
   \<and> get_products (Some ''Books'') =
       [\<lparr>id_Product = 2, name = ''Book'', price = 19.99, category = Some ''Books''\<rparr>]
   \<and> get_products (Some ''Unknown'') = []
   \<and> get_products (Some ''books'') = []
   \<and> GET_products category_q = Inr (200, get_products category_q)"
  by (simp add: get_products_def catalog_def GET_products_def)

theorem get_products_filter_witness:
  "''Books'' \<noteq> [] \<and> get_products (Some ''Books'') = spec_get_products (Some ''Books'')
   \<and> get_products (Some ''Books'') = filter (\<lambda>p. category p = Some ''Books'') catalog"
  using get_products_filter [of "''Books''"] by simp

text \<open>
  C8. \<^verbatim>\<open>GET /\<close> always returns status 200 with a body whose field \<^verbatim>\<open>status\<close> is
  "healthy" and whose field \<^verbatim>\<open>timestamp\<close> is present (it holds the clock value read);
  the body has no other field. (\<^verbatim>\<open>root\<close> has the same text in ten.py and main.py.)
\<close>

theorem root_healthy:
  "GET_root now = Inr (200, root now)
   \<and> root now ''status'' = Some (JString ''healthy'')
   \<and> root now ''timestamp'' = Some (JDatetime now)
   \<and> dom (root now) = {''status'', ''timestamp''}"
  by (auto simp add: GET_root_def root_def)

text \<open>
  C9. When the category parameter of \<^verbatim>\<open>GET /products\<close> is the empty string, no filter
  is applied and both catalog items are returned, as when the parameter is absent:
  \<^verbatim>\<open>if category:\<close> tests truthiness, not presence.
\<close>

theorem get_products_empty_category_unfiltered:
  "get_products (Some []) = get_products None
   \<and> get_products (Some []) =
       [\<lparr>id_Product = 1, name = ''Laptop'', price = 999.99, category = Some ''Electronics''\<rparr>,
        \<lparr>id_Product = 2, name = ''Book'', price = 19.99, category = Some ''Books''\<rparr>]
   \<and> GET_products (Some []) = GET_products None"
  by (simp add: get_products_def GET_products_def)

text \<open>
  C10. The response of \<^verbatim>\<open>POST /users\<close> does not depend on the password: for two
  \<^verbatim>\<open>UserCreate\<close> bodies that agree on email and full name and whose passwords both have
  length at least 8, \<^verbatim>\<open>create_user\<close> returns equal responses when the clock reads the
  same, and responses equal up to \<^verbatim>\<open>created_at\<close> otherwise. The response type
  \<^typ>\<open>UserResponse\<close> has the fields email, full_name, id, is_active and created_at, and
  none for the password.
\<close>

theorem create_user_ignores_password:
  assumes "email u1 = email u2" and "full_name u1 = full_name u2"
    and "8 \<le> length (password u1)" and "8 \<le> length (password u2)"
  shows "create_user now u1 = create_user now u2
       \<and> (create_user now1 u1)\<lparr>created_at := t\<rparr> = (create_user now2 u2)\<lparr>created_at := t\<rparr>"
  using assms by (simp add: create_user_def)

theorem create_user_ignores_password_witness:
  "8 \<le> length ''password1'' \<and> 8 \<le> length ''correct horse''
   \<and> ''password1'' \<noteq> ''correct horse''
   \<and> create_user 0 \<lparr>email = ''a@b.com'', full_name = None, password = ''password1''\<rparr> =
     create_user 0 \<lparr>email = ''a@b.com'', full_name = None, password = ''correct horse''\<rparr>
   \<and> (create_user 3 \<lparr>email = ''a@b.com'', full_name = None, password = ''password1''\<rparr>)
         \<lparr>created_at := 0\<rparr> =
     (create_user 7 \<lparr>email = ''a@b.com'', full_name = None, password = ''correct horse''\<rparr>)
         \<lparr>created_at := 0\<rparr>"
  using create_user_ignores_password
    [where ?u1.0 = "\<lparr>email = ''a@b.com'', full_name = None, password = ''password1''\<rparr>"
       and ?u2.0 = "\<lparr>email = ''a@b.com'', full_name = None, password = ''correct horse''\<rparr>"
       and now = 0 and ?now1.0 = 3 and ?now2.0 = 7 and t = 0]
  by simp

text \<open>The same at the route: replacing one valid password by another changes nothing.\<close>

lemma POST_users_ignores_password:
  assumes "8 \<le> length p1" and "8 \<le> length p2"
  shows "POST_users now (body(''password'' \<mapsto> p1)) = POST_users now (body(''password'' \<mapsto> p2))"
  using assms
  by (cases "body ''email''") (simp_all add: POST_users_def parse_UserCreate_def create_user_def)

end
